theory Spec2Isabelle
  imports Main "HOL-Library.Word"
begin

section \<open>The typed database interface of data\_base.h\<close>

text \<open>
  The header declares two classes. \<open>DBQueryResult\<close> is the cursor an engine hands back
  for a query; \<open>DataBase\<close> is the engine interface together with the typed template
  operations (\<open>create_table\<close>, \<open>query\<close>, \<open>insert\<close>, ...) that are written once on top of
  its virtual functions. The virtual functions have no body in the header: they are the
  fields of the record \<open>DataBase\<close> below, so every theorem holds for every engine and
  every SQL compiler. C strings and \<open>std::string\<close> are both \<open>string\<close>; a
  \<open>const char*\<close> that may be null is a \<open>string option\<close>, with \<open>None\<close> the null pointer.
  The logging macros \<open>DB_ERROR\<close> and \<open>DB_DEBUG\<close> have no effect on results and are left out.
\<close>

type_synonym int32 = "32 word"
type_synonym uint64 = "64 word"
type_synonym size_t = "64 word"

text \<open>
  Modelled from the spec: the macro \<open>TARO_ASSERT\<close> is defined outside the header. A
  failed assertion is fatal: it stops the process, and the operation ends in
  \<open>AssertionAbort\<close> instead of returning. \<open>ConversionFailed\<close> is what the value
  codec reports for a text that does not parse.
\<close>

datatype error = AssertionAbort | ConversionFailed

subsection \<open>DBQueryResult\<close>

text \<open>
  Modelled from the spec: the classes deriving from \<open>DBQueryResult\<close> are not part of the
  header. The cursor is the ordered list of returned column names and the rows not yet
  consumed, the current row first; a value is the raw text of a column or \<open>None\<close> for
  SQL NULL. A cursor is handed out standing on its first row: the aggregate operations
  read \<open>get_col_val(0)\<close> before any call of \<open>next\<close>. Reading where there is no row, or
  outside the row, gives the null pointer.
\<close>

record DBQueryResult =
  columns :: "string list"
  rows :: "string option list list"

definition get_columns :: "DBQueryResult \<Rightarrow> string list" where
  "get_columns result = columns result"

definition get_col_val :: "int32 \<Rightarrow> DBQueryResult \<Rightarrow> string option" where
  "get_col_val col result =
     (case rows result of
        [] \<Rightarrow> None
      | row # _ \<Rightarrow>
          (if 0 \<le> sint col \<and> nat (sint col) < length row then row ! nat (sint col) else None))"

definition next_row :: "DBQueryResult \<Rightarrow> bool \<times> DBQueryResult" where
  "next_row result =
     (case rows result of
        [] \<Rightarrow> (False, result)
      | _ # rest \<Rightarrow> (rest \<noteq> [], result\<lparr>rows := rest\<rparr>))"

text \<open>
  \<open>DBQueryResult::get<T>\<close>. The codec \<open>str_to_value<T>\<close> lives in str\_serialize.h and is
  a parameter: it may fail, or give an absent or a present value.
\<close>

definition get :: "(string \<Rightarrow> error + 'a option) \<Rightarrow> DBQueryResult \<Rightarrow> int32 \<Rightarrow> error + 'a option" where
  "get str_to_value result col =
     (let ret = None;
          ptr = get_col_val col result
      in case ptr of
           None \<Rightarrow> Inr ret
         | Some text \<Rightarrow> str_to_value text)"

subsection \<open>The reflection registry\<close>

text \<open>
  Modelled from the spec: \<open>ClsMemberReflector\<close> and \<open>DBReflector\<close> are declared in
  db\_reflector.h, which is not part of the header. A member reflector is a column
  descriptor: its name and the function writing a raw column text into an object of the
  persisted type (\<open>deserialize\<close> receives the pointer \<open>get_col_val\<close> returned, so it
  may be handed a null pointer). The registry maps a type identity to the table name
  and the ordered member reflectors; \<open>find_class_name\<close> gives the empty name for a
  type that has no mapping.
\<close>

type_synonym type_info = nat

record 'o ClsMemberReflector =
  get_name :: string
  deserialize :: "string option \<Rightarrow> 'o \<Rightarrow> 'o"

type_synonym 'o DBReflector = "type_info \<Rightarrow> (string \<times> 'o ClsMemberReflector list) option"

definition find_class_name :: "'o DBReflector \<Rightarrow> type_info \<Rightarrow> string" where
  "find_class_name inst type = (case inst type of None \<Rightarrow> [] | Some (name, _) \<Rightarrow> name)"

definition get_member_reflectors :: "'o DBReflector \<Rightarrow> type_info \<Rightarrow> 'o ClsMemberReflector list" where
  "get_member_reflectors inst type = (case inst type of None \<Rightarrow> [] | Some (_, members) \<Rightarrow> members)"

text \<open>
  What the templates use of a persisted type \<open>T\<close>: its identity \<open>&typeid(T)\<close>, its
  static self-registration function \<open>T::db_cls_reflect\<close>, which acts on the registry,
  and the object that \<open>T element;\<close> creates.
\<close>

record 'o persisted =
  type_of :: type_info
  db_cls_reflect :: "'o DBReflector \<Rightarrow> 'o DBReflector"
  default_init :: 'o

subsection \<open>The DataBase interface\<close>

text \<open>
  The pure virtual functions of \<open>DataBase\<close> that the typed operations call. The engine
  functions act on the engine's state \<open>'db\<close>; the virtual \<open>query\<close> is named
  \<open>query_cmd\<close> here, the name \<open>query\<close> being kept for the typed operation. The
  \<open>*_tbl_sql\<close> functions are the SQL compiler; they are functions of their arguments.
  The parameter types \<open>CreateTblConstraint\<close>, \<open>DBQueryParam\<close>, \<open>DBModifyParam\<close> and
  \<open>DBCond\<close> come from db\_helper.h and stay abstract (\<open>'cc\<close>, \<open>'qp\<close>, \<open>'mp\<close>,
  \<open>'cond\<close>).
\<close>

record ('db, 'o, 'cc, 'qp, 'mp, 'cond) DataBase =
  excute_cmd :: "string \<Rightarrow> 'db \<Rightarrow> int32 \<times> 'db"
  exec_cmd_ret_id :: "string \<Rightarrow> 'db \<Rightarrow> (int32 \<times> uint64) \<times> 'db"
  query_cmd :: "string \<Rightarrow> 'db \<Rightarrow> DBQueryResult option \<times> 'db"
  create_tbl_sql :: "string \<Rightarrow> 'o ClsMemberReflector list \<Rightarrow> 'cc \<Rightarrow> string"
  query_tbl_sql :: "string \<Rightarrow> 'o ClsMemberReflector list \<Rightarrow> 'qp \<Rightarrow> string"
  insert_tbl_sql :: "'o \<Rightarrow> string \<Rightarrow> 'o ClsMemberReflector list \<Rightarrow> 'mp \<Rightarrow> string"
  update_tbl_sql :: "'o \<Rightarrow> string \<Rightarrow> 'o ClsMemberReflector list \<Rightarrow> 'mp \<Rightarrow> string"
  remove_tbl_sql :: "string \<Rightarrow> 'cond \<Rightarrow> string"
  average_tbl_sql :: "string \<Rightarrow> string option \<Rightarrow> 'cond \<Rightarrow> string"
  sum_tbl_sql :: "string \<Rightarrow> string option \<Rightarrow> 'cond \<Rightarrow> string"
  count_tbl_sql :: "string \<Rightarrow> 'cond \<Rightarrow> string"

text \<open>
  What the header takes from its includes and from the C library: the status codes, the
  macro \<open>STRING_CHECK\<close>, the functions expanding the variadic call-site arguments into
  a default-constructed parameter object, and \<open>atof\<close>, whose \<open>double\<close> is the abstract
  type \<open>'r\<close>.
\<close>

record ('arg, 'cc, 'qp, 'mp, 'r) externals =
  TARO_OK :: int32
  TARO_ERR_FAILED :: int32
  TARO_ERR_INVALID_ARG :: int32
  STRING_CHECK :: "string option \<Rightarrow> bool"
  expand_create_param :: "'arg \<Rightarrow> 'cc"
  expand_query_param :: "'arg \<Rightarrow> 'qp"
  expand_modify_param :: "'arg \<Rightarrow> 'mp"
  atof :: "string \<Rightarrow> 'r"

text \<open>
  \<open>atol\<close> of the C library on an LP64 platform: leading white space, an optional sign,
  then decimal digits up to the first other character; a value outside \<open>long\<close> is
  clamped, as \<open>strtol\<close> does.
\<close>

definition isspace :: "char \<Rightarrow> bool" where
  "isspace c = (c \<in> set [CHR '' '', CHR 0x09, CHR 0x0A, CHR 0x0B, CHR 0x0C, CHR 0x0D])"

definition isdigit :: "char \<Rightarrow> bool" where
  "isdigit c = (48 \<le> (of_char c :: nat) \<and> (of_char c :: nat) \<le> 57)"

fun digits_value :: "int \<Rightarrow> string \<Rightarrow> int" where
  "digits_value acc [] = acc"
| "digits_value acc (c # cs) =
     (if isdigit c then digits_value (acc * 10 + (int (of_char c) - 48)) cs else acc)"

definition atol :: "string \<Rightarrow> int" where
  "atol s =
     (let t = dropWhile isspace s;
          v = (case t of
                 [] \<Rightarrow> 0
               | c # cs \<Rightarrow>
                   if c = CHR ''-'' then - digits_value 0 cs
                   else if c = CHR ''+'' then digits_value 0 cs
                   else digits_value 0 t)
      in max (- (2 ^ 63)) (min (2 ^ 63 - 1) v))"

subsection \<open>The state the operations act on\<close>

text \<open>
  The engine behind \<open>this\<close> and the process-wide registry \<open>DBReflector::instance()\<close>.
  Two history fields record what crosses the boundaries: \<open>handed\<close> is the list of SQL
  texts given to \<open>excute_cmd\<close>, \<open>exec_cmd_ret_id\<close> and \<open>query\<close>, in order, and
  \<open>reflected\<close> lists the types whose \<open>db_cls_reflect\<close> has run.
\<close>

record ('db, 'o) world =
  engine :: 'db
  reflector :: "'o DBReflector"
  handed :: "string list"
  reflected :: "type_info list"

definition call_excute_cmd ::
  "('db, 'o, 'cc, 'qp, 'mp, 'cond) DataBase \<Rightarrow> string \<Rightarrow> ('db, 'o) world \<Rightarrow> int32 \<times> ('db, 'o) world" where
  "call_excute_cmd db sql w =
     (case excute_cmd db sql (engine w) of
        (rc, e) \<Rightarrow> (rc, w\<lparr>engine := e, handed := handed w @ [sql]\<rparr>))"

definition call_exec_cmd_ret_id ::
  "('db, 'o, 'cc, 'qp, 'mp, 'cond) DataBase \<Rightarrow> string \<Rightarrow> ('db, 'o) world
     \<Rightarrow> (int32 \<times> uint64) \<times> ('db, 'o) world" where
  "call_exec_cmd_ret_id db sql w =
     (case exec_cmd_ret_id db sql (engine w) of
        (r, e) \<Rightarrow> (r, w\<lparr>engine := e, handed := handed w @ [sql]\<rparr>))"

definition call_query_cmd ::
  "('db, 'o, 'cc, 'qp, 'mp, 'cond) DataBase \<Rightarrow> string \<Rightarrow> ('db, 'o) world
     \<Rightarrow> DBQueryResult option \<times> ('db, 'o) world" where
  "call_query_cmd db sql w =
     (case query_cmd db sql (engine w) of
        (r, e) \<Rightarrow> (r, w\<lparr>engine := e, handed := handed w @ [sql]\<rparr>))"

definition call_db_cls_reflect :: "'o persisted \<Rightarrow> ('db, 'o) world \<Rightarrow> ('db, 'o) world" where
  "call_db_cls_reflect T w =
     w\<lparr>reflector := db_cls_reflect T (reflector w), reflected := reflected w @ [type_of T]\<rparr>"

subsection \<open>Type information\<close>

text \<open>\<open>DataBase::get_cls_info<T>\<close> and \<open>DataBase::get_class_name<T>\<close>.\<close>

definition get_cls_info ::
  "'o persisted \<Rightarrow> ('db, 'o) world
     \<Rightarrow> (error + string \<times> 'o ClsMemberReflector list) \<times> ('db, 'o) world" where
  "get_cls_info T w =
     (let type = type_of T;
          name = find_class_name (reflector w) type;
          w1 = (if name = [] then call_db_cls_reflect T w else w);
          name1 = (if name = [] then find_class_name (reflector w1) type else name)
      in if name1 = [] then (Inl AssertionAbort, w1)
         else (Inr (name1, get_member_reflectors (reflector w1) type), w1))"

definition get_class_name ::
  "'o persisted \<Rightarrow> ('db, 'o) world \<Rightarrow> (error + string) \<times> ('db, 'o) world" where
  "get_class_name T w =
     (let type = type_of T;
          name = find_class_name (reflector w) type;
          w1 = (if name = [] then call_db_cls_reflect T w else w);
          name1 = (if name = [] then find_class_name (reflector w1) type else name)
      in if name1 = [] then (Inl AssertionAbort, w1)
         else (Inr name1, w1))"

subsection \<open>create\_table and drop\_table\<close>

definition create_table ::
  "('arg, 'cc, 'qp, 'mp, 'r) externals \<Rightarrow> ('db, 'o, 'cc, 'qp, 'mp, 'cond) DataBase
     \<Rightarrow> 'o persisted \<Rightarrow> 'arg \<Rightarrow> ('db, 'o) world \<Rightarrow> (error + int32) \<times> ('db, 'o) world" where
  "create_table ext db T args w =
     (case get_cls_info T w of
        (Inl e, w1) \<Rightarrow> (Inl e, w1)
      | (Inr (name, members), w1) \<Rightarrow>
          if \<not> (name \<noteq> [] \<and> members \<noteq> []) then (Inl AssertionAbort, w1)
          else
            let constraint = expand_create_param ext args;
                cmd = create_tbl_sql db name members constraint
            in if cmd = [] then (Inr (TARO_ERR_INVALID_ARG ext), w1)
               else
                 case call_excute_cmd db cmd w1 of
                   (rc, w2) \<Rightarrow>
                     if TARO_OK ext \<noteq> rc then (Inr (TARO_ERR_FAILED ext), w2)
                     else (Inr (TARO_OK ext), w2))"

definition drop_table ::
  "('arg, 'cc, 'qp, 'mp, 'r) externals \<Rightarrow> ('db, 'o, 'cc, 'qp, 'mp, 'cond) DataBase
     \<Rightarrow> 'o persisted \<Rightarrow> ('db, 'o) world \<Rightarrow> (error + int32) \<times> ('db, 'o) world" where
  "drop_table ext db T w =
     (case get_class_name T w of
        (Inl e, w1) \<Rightarrow> (Inl e, w1)
      | (Inr name, w1) \<Rightarrow>
          let cmd = ''drop table '' @ name
          in case call_excute_cmd db cmd w1 of
               (rc, w2) \<Rightarrow>
                 if TARO_OK ext \<noteq> rc then (Inr (TARO_ERR_FAILED ext), w2)
                 else (Inr (TARO_OK ext), w2))"

subsection \<open>query\<close>

text \<open>
  The inner \<open>for\<close> loop of \<open>query\<close>: for the columns from index \<open>i\<close> on, find the
  member reflector of that name with \<open>std::find_if\<close>, assert that there is one, and let
  it deserialize what \<open>get_col_val((int32_t)i)\<close> returns into the element.
\<close>

fun marshal_cols ::
  "'o ClsMemberReflector list \<Rightarrow> DBQueryResult \<Rightarrow> string list \<Rightarrow> nat \<Rightarrow> 'o \<Rightarrow> error + 'o" where
  "marshal_cols members result [] i element = Inr element"
| "marshal_cols members result (c # cs) i element =
     (case find (\<lambda>ptr. get_name ptr = c) members of
        None \<Rightarrow> Inl AssertionAbort
      | Some m \<Rightarrow>
          marshal_cols members result cs (i + 1)
            (deserialize m (get_col_val (of_nat i) result) element))"

text \<open>
  The \<open>do ... while( result->next() )\<close> loop: the body runs on the current row before
  \<open>next\<close> is asked for the first time.
\<close>

function marshal_rows ::
  "'o ClsMemberReflector list \<Rightarrow> string list \<Rightarrow> 'o \<Rightarrow> DBQueryResult \<Rightarrow> 'o list \<Rightarrow> error + 'o list" where
  "marshal_rows members cols dflt result query_result =
     (case marshal_cols members result cols 0 dflt of
        Inl e \<Rightarrow> Inl e
      | Inr element \<Rightarrow>
          (if fst (next_row result)
           then marshal_rows members cols dflt (snd (next_row result)) (query_result @ [element])
           else Inr (query_result @ [element])))"
  by pat_completeness auto
termination
  by (relation "measure (\<lambda>(members, cols, dflt, result, query_result). length (rows result))")
     (auto simp: next_row_def split: list.splits)

definition query ::
  "('arg, 'cc, 'qp, 'mp, 'r) externals \<Rightarrow> ('db, 'o, 'cc, 'qp, 'mp, 'cond) DataBase
     \<Rightarrow> 'o persisted \<Rightarrow> 'arg \<Rightarrow> ('db, 'o) world \<Rightarrow> (error + 'o list) \<times> ('db, 'o) world" where
  "query ext db T args w =
     (case get_cls_info T w of
        (Inl e, w1) \<Rightarrow> (Inl e, w1)
      | (Inr (name, members), w1) \<Rightarrow>
          if \<not> (name \<noteq> [] \<and> members \<noteq> []) then (Inl AssertionAbort, w1)
          else
            let param = expand_query_param ext args;
                query_result = [];
                cmd = query_tbl_sql db name members param
            in if cmd = [] then (Inr query_result, w1)
               else
                 case call_query_cmd db cmd w1 of
                   (None, w2) \<Rightarrow> (Inr query_result, w2)
                 | (Some result, w2) \<Rightarrow>
                     let cols = get_columns result
                     in if cols = [] then (Inr query_result, w2)
                        else (marshal_rows members cols (default_init T) result query_result, w2))"

subsection \<open>insert, insert\_ret\_id, update, remove\<close>

definition insert_T ::
  "('arg, 'cc, 'qp, 'mp, 'r) externals \<Rightarrow> ('db, 'o, 'cc, 'qp, 'mp, 'cond) DataBase
     \<Rightarrow> 'o persisted \<Rightarrow> 'o \<Rightarrow> 'arg \<Rightarrow> ('db, 'o) world \<Rightarrow> (error + int32) \<times> ('db, 'o) world" where
  "insert_T ext db T obj args w =
     (case get_cls_info T w of
        (Inl e, w1) \<Rightarrow> (Inl e, w1)
      | (Inr (name, members), w1) \<Rightarrow>
          if \<not> (name \<noteq> [] \<and> members \<noteq> []) then (Inl AssertionAbort, w1)
          else
            let param = expand_modify_param ext args;
                cmd = insert_tbl_sql db obj name members param
            in if cmd = [] then (Inr (TARO_ERR_INVALID_ARG ext), w1)
               else
                 case call_excute_cmd db cmd w1 of
                   (rc, w2) \<Rightarrow>
                     if TARO_OK ext \<noteq> rc then (Inr (TARO_ERR_FAILED ext), w2)
                     else (Inr (TARO_OK ext), w2))"

definition insert_ret_id ::
  "('arg, 'cc, 'qp, 'mp, 'r) externals \<Rightarrow> ('db, 'o, 'cc, 'qp, 'mp, 'cond) DataBase
     \<Rightarrow> 'o persisted \<Rightarrow> 'o \<Rightarrow> 'arg \<Rightarrow> ('db, 'o) world
     \<Rightarrow> (error + uint64 option) \<times> ('db, 'o) world" where
  "insert_ret_id ext db T obj args w =
     (case get_cls_info T w of
        (Inl e, w1) \<Rightarrow> (Inl e, w1)
      | (Inr (name, members), w1) \<Rightarrow>
          if \<not> (name \<noteq> [] \<and> members \<noteq> []) then (Inl AssertionAbort, w1)
          else
            let param = expand_modify_param ext args;
                cmd = insert_tbl_sql db obj name members param
            in if cmd = [] then (Inr None, w1)
               else
                 case call_exec_cmd_ret_id db cmd w1 of
                   ((rc, new_id), w2) \<Rightarrow>
                     if TARO_OK ext \<noteq> rc then (Inr None, w2)
                     else (Inr (Some new_id), w2))"

definition update_T ::
  "('arg, 'cc, 'qp, 'mp, 'r) externals \<Rightarrow> ('db, 'o, 'cc, 'qp, 'mp, 'cond) DataBase
     \<Rightarrow> 'o persisted \<Rightarrow> 'o \<Rightarrow> 'arg \<Rightarrow> ('db, 'o) world \<Rightarrow> (error + int32) \<times> ('db, 'o) world" where
  "update_T ext db T obj args w =
     (case get_cls_info T w of
        (Inl e, w1) \<Rightarrow> (Inl e, w1)
      | (Inr (name, members), w1) \<Rightarrow>
          if \<not> (name \<noteq> [] \<and> members \<noteq> []) then (Inl AssertionAbort, w1)
          else
            let param = expand_modify_param ext args;
                cmd = update_tbl_sql db obj name members param
            in if cmd = [] then (Inr (TARO_ERR_INVALID_ARG ext), w1)
               else
                 case call_excute_cmd db cmd w1 of
                   (rc, w2) \<Rightarrow>
                     if TARO_OK ext \<noteq> rc then (Inr (TARO_ERR_FAILED ext), w2)
                     else (Inr (TARO_OK ext), w2))"

definition remove_T ::
  "('arg, 'cc, 'qp, 'mp, 'r) externals \<Rightarrow> ('db, 'o, 'cc, 'qp, 'mp, 'cond) DataBase
     \<Rightarrow> 'o persisted \<Rightarrow> 'cond \<Rightarrow> ('db, 'o) world \<Rightarrow> (error + int32) \<times> ('db, 'o) world" where
  "remove_T ext db T cond w =
     (case get_class_name T w of
        (Inl e, w1) \<Rightarrow> (Inl e, w1)
      | (Inr name, w1) \<Rightarrow>
          let cmd = remove_tbl_sql db name cond
          in if cmd = [] then (Inr (TARO_ERR_INVALID_ARG ext), w1)
             else
               case call_excute_cmd db cmd w1 of
                 (rc, w2) \<Rightarrow>
                   if TARO_OK ext \<noteq> rc then (Inr (TARO_ERR_FAILED ext), w2)
                   else (Inr (TARO_OK ext), w2))"

subsection \<open>sum, count, average\<close>

definition sum_T ::
  "('arg, 'cc, 'qp, 'mp, 'r) externals \<Rightarrow> ('db, 'o, 'cc, 'qp, 'mp, 'cond) DataBase
     \<Rightarrow> 'o persisted \<Rightarrow> string option \<Rightarrow> 'cond \<Rightarrow> ('db, 'o) world
     \<Rightarrow> (error + 'r option) \<times> ('db, 'o) world" where
  "sum_T ext db T column cond w =
     (if \<not> STRING_CHECK ext column then (Inl AssertionAbort, w)
      else
        case get_class_name T w of
          (Inl e, w1) \<Rightarrow> (Inl e, w1)
        | (Inr name, w1) \<Rightarrow>
            let sql = sum_tbl_sql db name column cond
            in if \<not> sql \<noteq> [] then (Inl AssertionAbort, w1)
               else
                 case call_query_cmd db sql w1 of
                   (None, w2) \<Rightarrow> (Inr None, w2)
                 | (Some result, w2) \<Rightarrow>
                     (case get_col_val 0 result of
                        None \<Rightarrow> (Inr None, w2)
                      | Some text \<Rightarrow> (Inr (Some (atof ext text)), w2)))"

definition count_T ::
  "('arg, 'cc, 'qp, 'mp, 'r) externals \<Rightarrow> ('db, 'o, 'cc, 'qp, 'mp, 'cond) DataBase
     \<Rightarrow> 'o persisted \<Rightarrow> 'cond \<Rightarrow> ('db, 'o) world
     \<Rightarrow> (error + size_t option) \<times> ('db, 'o) world" where
  "count_T ext db T cond w =
     (case get_class_name T w of
        (Inl e, w1) \<Rightarrow> (Inl e, w1)
      | (Inr name, w1) \<Rightarrow>
          let sql = count_tbl_sql db name cond
          in if \<not> sql \<noteq> [] then (Inl AssertionAbort, w1)
             else
               case call_query_cmd db sql w1 of
                 (None, w2) \<Rightarrow> (Inr None, w2)
               | (Some result, w2) \<Rightarrow>
                   (case get_col_val 0 result of
                      None \<Rightarrow> (Inr None, w2)
                    | Some text \<Rightarrow> (Inr (Some (word_of_int (atol text))), w2)))"

definition average ::
  "('arg, 'cc, 'qp, 'mp, 'r) externals \<Rightarrow> ('db, 'o, 'cc, 'qp, 'mp, 'cond) DataBase
     \<Rightarrow> 'o persisted \<Rightarrow> string option \<Rightarrow> 'cond \<Rightarrow> ('db, 'o) world
     \<Rightarrow> (error + 'r option) \<times> ('db, 'o) world" where
  "average ext db T column cond w =
     (if \<not> STRING_CHECK ext column then (Inl AssertionAbort, w)
      else
        case get_class_name T w of
          (Inl e, w1) \<Rightarrow> (Inl e, w1)
        | (Inr name, w1) \<Rightarrow>
            let sql = average_tbl_sql db name column cond
            in if \<not> sql \<noteq> [] then (Inl AssertionAbort, w1)
               else
                 case call_query_cmd db sql w1 of
                   (None, w2) \<Rightarrow> (Inr None, w2)
                 | (Some result, w2) \<Rightarrow>
                     (case get_col_val 0 result of
                        None \<Rightarrow> (Inr None, w2)
                      | Some text \<Rightarrow> (Inr (Some (atof ext text)), w2)))"

subsection \<open>What the specification asks of the marshaller at NULL\<close>

text \<open>
  The specification's marshaller leaves a field at its default when the row value is
  NULL. \<open>marshal_cols_skip_null\<close> is the inner loop written that way, to be compared
  with \<open>marshal_cols\<close>, the loop of the header.
\<close>

fun marshal_cols_skip_null ::
  "'o ClsMemberReflector list \<Rightarrow> DBQueryResult \<Rightarrow> string list \<Rightarrow> nat \<Rightarrow> 'o \<Rightarrow> error + 'o" where
  "marshal_cols_skip_null members result [] i element = Inr element"
| "marshal_cols_skip_null members result (c # cs) i element =
     (case find (\<lambda>ptr. get_name ptr = c) members of
        None \<Rightarrow> Inl AssertionAbort
      | Some m \<Rightarrow>
          marshal_cols_skip_null members result cs (i + 1)
            (case get_col_val (of_nat i) result of
               None \<Rightarrow> element
             | Some text \<Rightarrow> deserialize m (Some text) element))"

subsection \<open>The texts the SQL compiler can return\<close>

inductive_set compiler_output ::
  "('db, 'o, 'cc, 'qp, 'mp, 'cond) DataBase \<Rightarrow> string set"
  for db :: "('db, 'o, 'cc, 'qp, 'mp, 'cond) DataBase" where
  by_create: "create_tbl_sql db name members constraint \<in> compiler_output db"
| by_query: "query_tbl_sql db name members qparam \<in> compiler_output db"
| by_insert: "insert_tbl_sql db obj name members mparam \<in> compiler_output db"
| by_update: "update_tbl_sql db obj name members mparam \<in> compiler_output db"
| by_remove: "remove_tbl_sql db name cond \<in> compiler_output db"
| by_average: "average_tbl_sql db name col cond \<in> compiler_output db"
| by_sum: "sum_tbl_sql db name col cond \<in> compiler_output db"
| by_count: "count_tbl_sql db name cond \<in> compiler_output db"

subsection \<open>A persisted type and an engine to run the operations on\<close>

text \<open>
  The \<open>User\<close> type of the specification's end-to-end scenario, with member reflectors
  that leave the object alone at a null text, and a second registration of the same
  class, \<open>Account\<close>, whose \<open>age\<close> reflector stores 0 at a null text while the default
  constructor sets the age to -1.
\<close>

record User =
  user_id :: int
  user_name :: string
  user_age :: int

definition id_member :: "User ClsMemberReflector" where
  "id_member = \<lparr>get_name = ''id'',
     deserialize = (\<lambda>v u. case v of None \<Rightarrow> u | Some t \<Rightarrow> u\<lparr>user_id := atol t\<rparr>)\<rparr>"

definition name_member :: "User ClsMemberReflector" where
  "name_member = \<lparr>get_name = ''name'',
     deserialize = (\<lambda>v u. case v of None \<Rightarrow> u | Some t \<Rightarrow> u\<lparr>user_name := t\<rparr>)\<rparr>"

definition age_member :: "User ClsMemberReflector" where
  "age_member = \<lparr>get_name = ''age'',
     deserialize = (\<lambda>v u. case v of None \<Rightarrow> u | Some t \<Rightarrow> u\<lparr>user_age := atol t\<rparr>)\<rparr>"

definition age_member_zero_at_null :: "User ClsMemberReflector" where
  "age_member_zero_at_null = \<lparr>get_name = ''age'',
     deserialize = (\<lambda>v u. u\<lparr>user_age := (case v of None \<Rightarrow> 0 | Some t \<Rightarrow> atol t)\<rparr>)\<rparr>"

definition user_members :: "User ClsMemberReflector list" where
  "user_members = [id_member, name_member, age_member]"

definition account_members :: "User ClsMemberReflector list" where
  "account_members = [id_member, age_member_zero_at_null]"

definition User_T :: "User persisted" where
  "User_T = \<lparr>type_of = 0,
     db_cls_reflect = (\<lambda>inst. inst(0 \<mapsto> (''User'', user_members))),
     default_init = \<lparr>user_id = 0, user_name = [], user_age = 0\<rparr>\<rparr>"

definition Account_T :: "User persisted" where
  "Account_T = \<lparr>type_of = 1,
     db_cls_reflect = (\<lambda>inst. inst(1 \<mapsto> (''Account'', account_members))),
     default_init = \<lparr>user_id = 0, user_name = [], user_age = - 1\<rparr>\<rparr>"

text \<open>A type whose \<open>db_cls_reflect\<close> registers nothing.\<close>

definition Silent_T :: "User persisted" where
  "Silent_T = \<lparr>type_of = 2,
     db_cls_reflect = (\<lambda>inst. inst),
     default_init = \<lparr>user_id = 0, user_name = [], user_age = 0\<rparr>\<rparr>"

text \<open>
  An engine whose state is the cursor it answers every query with, and a compiler that
  refuses (returns the empty text) when the parameter object is \<open>False\<close>. The call-site
  arguments, the parameter objects and the conditions are all \<open>bool\<close> here; \<open>atof\<close>
  reads integral texts only.
\<close>

definition example_db ::
  "(DBQueryResult option, User, bool, bool, bool, bool) DataBase" where
  "example_db = \<lparr>
     excute_cmd = (\<lambda>sql e. (0, e)),
     exec_cmd_ret_id = (\<lambda>sql e. ((0, 1), e)),
     query_cmd = (\<lambda>sql e. (e, e)),
     create_tbl_sql = (\<lambda>name members ok. if ok then ''CREATE TABLE '' @ name else []),
     query_tbl_sql = (\<lambda>name members ok. if ok then ''SELECT * FROM '' @ name else []),
     insert_tbl_sql = (\<lambda>obj name members ok. if ok then ''INSERT INTO '' @ name else []),
     update_tbl_sql = (\<lambda>obj name members ok. if ok then ''UPDATE '' @ name else []),
     remove_tbl_sql = (\<lambda>name ok. if ok then ''DELETE FROM '' @ name else []),
     average_tbl_sql = (\<lambda>name col ok. if ok then ''SELECT AVG(*) FROM '' @ name else []),
     sum_tbl_sql = (\<lambda>name col ok. if ok then ''SELECT SUM(*) FROM '' @ name else []),
     count_tbl_sql = (\<lambda>name ok. if ok then ''SELECT COUNT(*) FROM '' @ name else [])\<rparr>"

definition example_ext :: "(bool, bool, bool, bool, int) externals" where
  "example_ext = \<lparr>
     TARO_OK = 0,
     TARO_ERR_FAILED = - 1,
     TARO_ERR_INVALID_ARG = - 2,
     STRING_CHECK = (\<lambda>s. case s of None \<Rightarrow> False | Some t \<Rightarrow> t \<noteq> []),
     expand_create_param = (\<lambda>a. a),
     expand_query_param = (\<lambda>a. a),
     expand_modify_param = (\<lambda>a. a),
     atof = atol\<rparr>"

definition registry0 :: "User DBReflector" where
  "registry0 = [0 \<mapsto> (''User'', user_members)]"

definition world0 :: "DBQueryResult option \<Rightarrow> (DBQueryResult option, User) world" where
  "world0 cursor = \<lparr>engine = cursor, reflector = registry0, handed = [], reflected = []\<rparr>"

definition fresh_world :: "DBQueryResult option \<Rightarrow> (DBQueryResult option, User) world" where
  "fresh_world cursor = \<lparr>engine = cursor, reflector = Map.empty, handed = [], reflected = []\<rparr>"

text \<open>Cursors an engine may answer with.\<close>

definition cursor_users :: DBQueryResult where
  "cursor_users = \<lparr>columns = [''id'', ''name'', ''age''],
     rows = [[Some ''1'', Some ''Alice'', Some ''30''],
             [Some ''1'', Some ''Alice'', Some ''30''],
             [Some ''2'', None, Some ''41'']]\<rparr>"

definition cursor_rows_no_columns :: DBQueryResult where
  "cursor_rows_no_columns = \<lparr>columns = [],
     rows = [[Some ''1'', Some ''Alice'', Some ''30''], [Some ''2'', None, Some ''41'']]\<rparr>"

definition cursor_no_columns :: DBQueryResult where
  "cursor_no_columns = \<lparr>columns = [], rows = []\<rparr>"

definition cursor_with_email :: DBQueryResult where
  "cursor_with_email = \<lparr>columns = [''id'', ''email''], rows = [[Some ''1'', Some ''a@b.c'']]\<rparr>"

definition cursor_null_age :: DBQueryResult where
  "cursor_null_age = \<lparr>columns = [''age''], rows = [[None]]\<rparr>"

definition cursor_zero :: DBQueryResult where
  "cursor_zero = \<lparr>columns = [''n''], rows = [[Some ''0'']]\<rparr>"

definition cursor_null :: DBQueryResult where
  "cursor_null = \<lparr>columns = [''n''], rows = [[None]]\<rparr>"

section \<open>Null propagation of a column read\<close>

text \<open>
  C5. For every column index and every target type, \<open>DBQueryResult::get\<close> returns an
  absent optional when the driver value at that column is SQL NULL. The result does not
  depend on the codec at all, so the codec is not run and no \<open>ConversionFailed\<close> can come
  out of a NULL value.
\<close>

theorem get_null_is_absent:
  "get_col_val col result = None \<Longrightarrow> get str_to_value result col = Inr None"
  by (simp add: get_def)

theorem get_null_is_absent_witness:
  "get_col_val 1 \<lparr>columns = [''id'', ''name''], rows = [[Some ''7'', None]]\<rparr> = None
   \<and> get (\<lambda>_. Inl ConversionFailed :: error + nat option)
        \<lparr>columns = [''id'', ''name''], rows = [[Some ''7'', None]]\<rparr> 1 = Inr None"
proof -
  have h: "get_col_val 1 \<lparr>columns = [''id'', ''name''], rows = [[Some ''7'', None]]\<rparr> = None"
    by (simp add: get_col_val_def)
  show ?thesis
    using h get_null_is_absent [OF h, of "\<lambda>_. Inl ConversionFailed :: error + nat option"]
    by simp
qed

section \<open>Lookup of the type information\<close>

text \<open>
  C6. For every persisted type, \<open>get_cls_info\<close> and \<open>get_class_name\<close> first ask the
  registry for the class name of the type. If the name is there, the registry is left as
  it is and no callback runs. Only if it is absent (empty) does \<open>T::db_cls_reflect\<close>
  run, exactly once, and the name is looked up again in the registry the callback left;
  a name still absent then is the assertion abort.
\<close>

theorem type_info_lookup:
  "(find_class_name (reflector w) (type_of T) \<noteq> [] \<longrightarrow>
      get_cls_info T w =
        (Inr (find_class_name (reflector w) (type_of T),
              get_member_reflectors (reflector w) (type_of T)), w)
      \<and> get_class_name T w = (Inr (find_class_name (reflector w) (type_of T)), w))
   \<and> (find_class_name (reflector w) (type_of T) = [] \<longrightarrow>
      snd (get_cls_info T w) = call_db_cls_reflect T w
      \<and> snd (get_class_name T w) = call_db_cls_reflect T w
      \<and> reflector (call_db_cls_reflect T w) = db_cls_reflect T (reflector w)
      \<and> reflected (call_db_cls_reflect T w) = reflected w @ [type_of T]
      \<and> (find_class_name (db_cls_reflect T (reflector w)) (type_of T) = [] \<longrightarrow>
            fst (get_cls_info T w) = Inl AssertionAbort
            \<and> fst (get_class_name T w) = Inl AssertionAbort)
      \<and> (find_class_name (db_cls_reflect T (reflector w)) (type_of T) \<noteq> [] \<longrightarrow>
            fst (get_cls_info T w) =
              Inr (find_class_name (db_cls_reflect T (reflector w)) (type_of T),
                   get_member_reflectors (db_cls_reflect T (reflector w)) (type_of T))
            \<and> fst (get_class_name T w) =
              Inr (find_class_name (db_cls_reflect T (reflector w)) (type_of T))))"
  by (simp add: get_cls_info_def get_class_name_def call_db_cls_reflect_def Let_def)

theorem type_info_lookup_witness:
  "find_class_name (reflector (world0 None)) (type_of User_T) = ''User''
   \<and> get_cls_info User_T (world0 None) = (Inr (''User'', user_members), world0 None)
   \<and> get_class_name User_T (world0 None) = (Inr ''User'', world0 None)
   \<and> reflected (world0 None) = []
   \<and> find_class_name (reflector (fresh_world None)) (type_of User_T) = []
   \<and> find_class_name (db_cls_reflect User_T (reflector (fresh_world None))) (type_of User_T) = ''User''
   \<and> fst (get_cls_info User_T (fresh_world None)) = Inr (''User'', user_members)
   \<and> fst (get_class_name User_T (fresh_world None)) = Inr ''User''
   \<and> reflected (snd (get_cls_info User_T (fresh_world None))) = [0]
   \<and> reflected (snd (get_class_name User_T (fresh_world None))) = [0]
   \<and> find_class_name (reflector (fresh_world None)) (type_of Silent_T) = []
   \<and> find_class_name (db_cls_reflect Silent_T (reflector (fresh_world None))) (type_of Silent_T) = []
   \<and> fst (get_cls_info Silent_T (fresh_world None)) = Inl AssertionAbort
   \<and> fst (get_class_name Silent_T (fresh_world None)) = Inl AssertionAbort
   \<and> reflected (snd (get_cls_info Silent_T (fresh_world None))) = [2]
   \<and> reflected (snd (get_class_name Silent_T (fresh_world None))) = [2]"
proof -
  have a: "find_class_name (reflector (world0 None)) (type_of User_T) = ''User''"
    "get_member_reflectors (reflector (world0 None)) (type_of User_T) = user_members"
    "reflected (world0 None) = []"
    by (simp_all add: find_class_name_def get_member_reflectors_def world0_def registry0_def
        User_T_def)
  have b: "find_class_name (reflector (fresh_world None)) (type_of User_T) = []"
    "find_class_name (db_cls_reflect User_T (reflector (fresh_world None))) (type_of User_T) = ''User''"
    "get_member_reflectors (db_cls_reflect User_T (reflector (fresh_world None))) (type_of User_T)
       = user_members"
    "reflected (fresh_world None) = []" "type_of User_T = 0"
    by (simp_all add: find_class_name_def get_member_reflectors_def fresh_world_def User_T_def)
  have c: "find_class_name (reflector (fresh_world None)) (type_of Silent_T) = []"
    "find_class_name (db_cls_reflect Silent_T (reflector (fresh_world None))) (type_of Silent_T) = []"
    "type_of Silent_T = 2"
    by (simp_all add: find_class_name_def fresh_world_def Silent_T_def)
  show ?thesis
    using a b c
      type_info_lookup [of "world0 None" User_T]
      type_info_lookup [of "fresh_world None" User_T]
      type_info_lookup [of "fresh_world None" Silent_T]
    by simp
qed

section \<open>What the lookups and the engine calls do to the state\<close>

lemma get_cls_info_name: "get_cls_info T w = (Inr (name, members), w1) \<Longrightarrow> name \<noteq> []"
  by (auto simp: get_cls_info_def Let_def split: if_splits)

lemma get_cls_info_handed: "get_cls_info T w = (r, w1) \<Longrightarrow> handed w1 = handed w"
  by (auto simp: get_cls_info_def call_db_cls_reflect_def Let_def split: if_splits)

lemma get_cls_info_engine: "get_cls_info T w = (r, w1) \<Longrightarrow> engine w1 = engine w"
  by (auto simp: get_cls_info_def call_db_cls_reflect_def Let_def split: if_splits)

lemma get_class_name_handed: "get_class_name T w = (r, w1) \<Longrightarrow> handed w1 = handed w"
  by (auto simp: get_class_name_def call_db_cls_reflect_def Let_def split: if_splits)

lemma get_class_name_engine: "get_class_name T w = (r, w1) \<Longrightarrow> engine w1 = engine w"
  by (auto simp: get_class_name_def call_db_cls_reflect_def Let_def split: if_splits)

lemma call_excute_cmd_handed:
  "call_excute_cmd db sql w = (rc, w2) \<Longrightarrow> handed w2 = handed w @ [sql]"
  by (auto simp: call_excute_cmd_def split: prod.splits)

lemma call_exec_cmd_ret_id_handed:
  "call_exec_cmd_ret_id db sql w = (r, w2) \<Longrightarrow> handed w2 = handed w @ [sql]"
  by (auto simp: call_exec_cmd_ret_id_def split: prod.splits)

lemma call_query_cmd_handed:
  "call_query_cmd db sql w = (r, w2) \<Longrightarrow> handed w2 = handed w @ [sql]"
  by (auto simp: call_query_cmd_def split: prod.splits)

text \<open>The example type on the example engine.\<close>

lemma example_cls_info:
  "get_cls_info User_T (world0 c) = (Inr (''User'', user_members), world0 c)"
  by (simp add: get_cls_info_def find_class_name_def get_member_reflectors_def User_T_def
      world0_def registry0_def Let_def)

lemma example_class_name: "get_class_name User_T (world0 c) = (Inr ''User'', world0 c)"
  by (simp add: get_class_name_def find_class_name_def User_T_def world0_def registry0_def Let_def)

lemma example_call_query_cmd:
  "call_query_cmd example_db sql (world0 c) = (c, (world0 c)\<lparr>handed := [sql]\<rparr>)"
  by (simp add: call_query_cmd_def example_db_def world0_def)

lemma world0_sel:
  "engine (world0 c) = c" "handed (world0 c) = []" "reflected (world0 c) = []"
  by (simp_all add: world0_def)

lemma user_members_names: "get_name ` set user_members = {''id'', ''name'', ''age''}"
  by (auto simp: user_members_def id_member_def name_member_def age_member_def)

section \<open>A compile failure in a mutation\<close>

text \<open>
  C1. For create\_table, insert, update and remove: if the SQL compiler function of the
  operation returns the empty text, the operation returns \<open>TARO_ERR_INVALID_ARG\<close>, and
  no text is handed to the engine: the list of handed texts and the engine are as they
  were before the call. (The compiler is reached once the type information is there,
  with at least one member where the operation asks for the members.)
\<close>

theorem mutation_empty_sql_invalid_arg:
  "(get_cls_info T w = (Inr (name, members), w1) \<and> members \<noteq> []
      \<and> create_tbl_sql db name members (expand_create_param ext args) = []
    \<longrightarrow> create_table ext db T args w = (Inr (TARO_ERR_INVALID_ARG ext), w1)
        \<and> handed w1 = handed w \<and> engine w1 = engine w)
   \<and> (get_cls_info T w = (Inr (name, members), w1) \<and> members \<noteq> []
      \<and> insert_tbl_sql db obj name members (expand_modify_param ext args) = []
    \<longrightarrow> insert_T ext db T obj args w = (Inr (TARO_ERR_INVALID_ARG ext), w1)
        \<and> handed w1 = handed w \<and> engine w1 = engine w)
   \<and> (get_cls_info T w = (Inr (name, members), w1) \<and> members \<noteq> []
      \<and> update_tbl_sql db obj name members (expand_modify_param ext args) = []
    \<longrightarrow> update_T ext db T obj args w = (Inr (TARO_ERR_INVALID_ARG ext), w1)
        \<and> handed w1 = handed w \<and> engine w1 = engine w)
   \<and> (get_class_name T w = (Inr name, w1')
      \<and> remove_tbl_sql db name cond = []
    \<longrightarrow> remove_T ext db T cond w = (Inr (TARO_ERR_INVALID_ARG ext), w1')
        \<and> handed w1' = handed w \<and> engine w1' = engine w)"
proof -
  have k: "get_cls_info T w = (Inr (name, members), w1)
      \<Longrightarrow> handed w1 = handed w \<and> engine w1 = engine w \<and> name \<noteq> []"
    using get_cls_info_handed get_cls_info_engine get_cls_info_name by blast
  have k': "get_class_name T w = (Inr name, w1') \<Longrightarrow> handed w1' = handed w \<and> engine w1' = engine w"
    using get_class_name_handed get_class_name_engine by blast
  show ?thesis
    using k k' by (simp add: create_table_def insert_T_def update_T_def remove_T_def)
qed

theorem mutation_empty_sql_invalid_arg_witness:
  "get_cls_info User_T (world0 None) = (Inr (''User'', user_members), world0 None)
   \<and> get_class_name User_T (world0 None) = (Inr ''User'', world0 None)
   \<and> user_members \<noteq> []
   \<and> create_tbl_sql example_db ''User'' user_members (expand_create_param example_ext False) = []
   \<and> insert_tbl_sql example_db (default_init User_T) ''User'' user_members
        (expand_modify_param example_ext False) = []
   \<and> update_tbl_sql example_db (default_init User_T) ''User'' user_members
        (expand_modify_param example_ext False) = []
   \<and> remove_tbl_sql example_db ''User'' False = []
   \<and> create_table example_ext example_db User_T False (world0 None) = (Inr (- 2), world0 None)
   \<and> insert_T example_ext example_db User_T (default_init User_T) False (world0 None)
        = (Inr (- 2), world0 None)
   \<and> update_T example_ext example_db User_T (default_init User_T) False (world0 None)
        = (Inr (- 2), world0 None)
   \<and> remove_T example_ext example_db User_T False (world0 None) = (Inr (- 2), world0 None)
   \<and> handed (world0 None) = []"
proof -
  have c: "user_members \<noteq> []"
    by (simp add: user_members_def)
  have d: "create_tbl_sql example_db ''User'' user_members (expand_create_param example_ext False) = []"
    "insert_tbl_sql example_db (default_init User_T) ''User'' user_members
       (expand_modify_param example_ext False) = []"
    "update_tbl_sql example_db (default_init User_T) ''User'' user_members
       (expand_modify_param example_ext False) = []"
    "remove_tbl_sql example_db ''User'' False = []"
    by (simp_all add: example_db_def example_ext_def)
  have e: "TARO_ERR_INVALID_ARG example_ext = - 2" "handed (world0 None) = []"
    by (simp_all add: example_ext_def world0_def)
  show ?thesis
    using example_cls_info [of None] example_class_name [of None] c d e
      mutation_empty_sql_invalid_arg [of User_T "world0 None" "''User''" user_members "world0 None"
        example_db example_ext False "default_init User_T" "world0 None" False]
    by simp
qed

section \<open>Where the texts handed to the engine come from\<close>

lemma create_table_handed:
  "\<exists>new. handed (snd (create_table ext db T args w)) = handed w @ new
     \<and> set new \<subseteq> compiler_output db"
  by (auto simp: create_table_def Let_def compiler_output.intros
      split: prod.splits sum.splits
      dest!: get_cls_info_handed call_excute_cmd_handed)

lemma query_handed:
  "\<exists>new. handed (snd (query ext db T args w)) = handed w @ new
     \<and> set new \<subseteq> compiler_output db"
  by (auto simp: query_def Let_def compiler_output.intros
      split: prod.splits sum.splits option.splits
      dest!: get_cls_info_handed call_query_cmd_handed)

lemma insert_handed:
  "\<exists>new. handed (snd (insert_T ext db T obj args w)) = handed w @ new
     \<and> set new \<subseteq> compiler_output db"
  by (auto simp: insert_T_def Let_def compiler_output.intros
      split: prod.splits sum.splits
      dest!: get_cls_info_handed call_excute_cmd_handed)

lemma insert_ret_id_handed:
  "\<exists>new. handed (snd (insert_ret_id ext db T obj args w)) = handed w @ new
     \<and> set new \<subseteq> compiler_output db"
  by (auto simp: insert_ret_id_def Let_def compiler_output.intros
      split: prod.splits sum.splits
      dest!: get_cls_info_handed call_exec_cmd_ret_id_handed)

lemma update_handed:
  "\<exists>new. handed (snd (update_T ext db T obj args w)) = handed w @ new
     \<and> set new \<subseteq> compiler_output db"
  by (auto simp: update_T_def Let_def compiler_output.intros
      split: prod.splits sum.splits
      dest!: get_cls_info_handed call_excute_cmd_handed)

lemma remove_handed:
  "\<exists>new. handed (snd (remove_T ext db T cond w)) = handed w @ new
     \<and> set new \<subseteq> compiler_output db"
  by (auto simp: remove_T_def Let_def compiler_output.intros
      split: prod.splits sum.splits
      dest!: get_class_name_handed call_excute_cmd_handed)

lemma sum_handed:
  "\<exists>new. handed (snd (sum_T ext db T column cond w)) = handed w @ new
     \<and> set new \<subseteq> compiler_output db"
  by (auto simp: sum_T_def Let_def compiler_output.intros
      split: prod.splits sum.splits option.splits
      dest!: get_class_name_handed call_query_cmd_handed)

lemma count_handed:
  "\<exists>new. handed (snd (count_T ext db T cond w)) = handed w @ new
     \<and> set new \<subseteq> compiler_output db"
  by (auto simp: count_T_def Let_def compiler_output.intros
      split: prod.splits sum.splits option.splits
      dest!: get_class_name_handed call_query_cmd_handed)

lemma average_handed:
  "\<exists>new. handed (snd (average ext db T column cond w)) = handed w @ new
     \<and> set new \<subseteq> compiler_output db"
  by (auto simp: average_def Let_def compiler_output.intros
      split: prod.splits sum.splits option.splits
      dest!: get_class_name_handed call_query_cmd_handed)

lemma drop_table_handed:
  "get_class_name T w = (Inr name, w1)
     \<Longrightarrow> handed (snd (drop_table ext db T w)) = handed w @ [''drop table '' @ name]"
  by (auto simp: drop_table_def Let_def split: prod.splits
      dest!: get_class_name_handed call_excute_cmd_handed)

text \<open>
  C9, as the header has it: \<open>drop_table\<close> hands the engine a text it builds itself,
  \<open>drop table\<close> followed by the class name, and with the example compiler no
  \<open>*_tbl_sql\<close> function returns that text.
\<close>

theorem drop_table_text_not_compiled:
  "handed (snd (drop_table example_ext example_db User_T (world0 None))) = [''drop table User'']
   \<and> ''drop table User'' \<notin> compiler_output example_db"
proof -
  have "handed (snd (drop_table example_ext example_db User_T (world0 None)))
          = handed (world0 None) @ [''drop table '' @ ''User'']"
    using example_class_name [of None] by (rule drop_table_handed)
  moreover have "''drop table User'' \<notin> compiler_output example_db"
    by (auto elim!: compiler_output.cases simp: example_db_def split: if_splits)
  ultimately show ?thesis
    by (simp add: world0_def)
qed

text \<open>
  C9, amended. Every SQL text handed to the engine by create\_table, query, insert,
  insert\_ret\_id, update, remove, sum, count and average is a value returned by a SQL
  compiler function: what the call adds to the list of handed texts lies in the
  compiler's output. \<open>drop_table\<close> is the exception: it hands over \<open>drop table\<close>
  followed by the registered class name, built in the operation itself.
\<close>

theorem handed_texts_are_compiled:
  "(\<exists>new. handed (snd (create_table ext db T args w)) = handed w @ new
       \<and> set new \<subseteq> compiler_output db)
   \<and> (\<exists>new. handed (snd (query ext db T args w)) = handed w @ new
       \<and> set new \<subseteq> compiler_output db)
   \<and> (\<exists>new. handed (snd (insert_T ext db T obj args w)) = handed w @ new
       \<and> set new \<subseteq> compiler_output db)
   \<and> (\<exists>new. handed (snd (insert_ret_id ext db T obj args w)) = handed w @ new
       \<and> set new \<subseteq> compiler_output db)
   \<and> (\<exists>new. handed (snd (update_T ext db T obj args w)) = handed w @ new
       \<and> set new \<subseteq> compiler_output db)
   \<and> (\<exists>new. handed (snd (remove_T ext db T cond w)) = handed w @ new
       \<and> set new \<subseteq> compiler_output db)
   \<and> (\<exists>new. handed (snd (sum_T ext db T column cond w)) = handed w @ new
       \<and> set new \<subseteq> compiler_output db)
   \<and> (\<exists>new. handed (snd (count_T ext db T cond w)) = handed w @ new
       \<and> set new \<subseteq> compiler_output db)
   \<and> (\<exists>new. handed (snd (average ext db T column cond w)) = handed w @ new
       \<and> set new \<subseteq> compiler_output db)
   \<and> (get_class_name T w = (Inr name, w1) \<longrightarrow>
        handed (snd (drop_table ext db T w)) = handed w @ [''drop table '' @ name])"
  using create_table_handed [of ext db T args w] query_handed [of ext db T args w]
    insert_handed [of ext db T obj args w] insert_ret_id_handed [of ext db T obj args w]
    update_handed [of ext db T obj args w] remove_handed [of ext db T cond w]
    sum_handed [of ext db T column cond w] count_handed [of ext db T cond w]
    average_handed [of ext db T column cond w] drop_table_handed [of T w name w1 ext db]
  by blast

theorem handed_texts_are_compiled_witness:
  "get_class_name User_T (world0 None) = (Inr ''User'', world0 None)
   \<and> handed (snd (drop_table example_ext example_db User_T (world0 None))) = [''drop table User'']
   \<and> handed (snd (create_table example_ext example_db User_T True (world0 None)))
        = [''CREATE TABLE User'']
   \<and> ''CREATE TABLE User'' \<in> compiler_output example_db
   \<and> handed (snd (count_T example_ext example_db User_T True (world0 (Some cursor_zero))))
        = [''SELECT COUNT(*) FROM User'']
   \<and> ''SELECT COUNT(*) FROM User'' \<in> compiler_output example_db"
proof -
  have nonempty: "user_members \<noteq> []"
    by (simp add: user_members_def)
  have created: "handed (snd (create_table example_ext example_db User_T True (world0 None)))
      = [''CREATE TABLE User'']"
    using nonempty
    by (simp add: create_table_def example_cls_info call_excute_cmd_def example_db_def
        example_ext_def world0_sel)
  have counted: "handed (snd (count_T example_ext example_db User_T True (world0 (Some cursor_zero))))
      = [''SELECT COUNT(*) FROM User'']"
    by (simp add: count_T_def example_class_name call_query_cmd_def example_db_def
        world0_sel cursor_zero_def get_col_val_def)
  have none: "handed (world0 None) = []" "handed (world0 (Some cursor_zero)) = []"
    by (simp_all add: world0_def)
  show ?thesis
    using example_class_name [of None] created counted none
      handed_texts_are_compiled [of example_ext example_db User_T True "world0 None"
        "default_init User_T" True None "''User''" "world0 None"]
      handed_texts_are_compiled [of example_ext example_db User_T True "world0 (Some cursor_zero)"
        "default_init User_T" True None "''User''" "world0 (Some cursor_zero)"]
    by simp
qed

section \<open>The aggregates\<close>

text \<open>
  C8, as the header has it: with a compiler that returns the empty text, sum, count and
  average end in the assertion abort, not in an absent result.
\<close>

theorem aggregate_empty_sql_aborts_example:
  "sum_tbl_sql example_db ''User'' (Some ''age'') False = []
   \<and> fst (sum_T example_ext example_db User_T (Some ''age'') False (world0 None))
        = Inl AssertionAbort
   \<and> count_tbl_sql example_db ''User'' False = []
   \<and> fst (count_T example_ext example_db User_T False (world0 None)) = Inl AssertionAbort
   \<and> average_tbl_sql example_db ''User'' (Some ''age'') False = []
   \<and> fst (average example_ext example_db User_T (Some ''age'') False (world0 None))
        = Inl AssertionAbort"
  by (simp add: sum_T_def count_T_def average_def example_class_name example_db_def
      example_ext_def)

text \<open>
  C8, amended. For sum, count and average, a compile failure (the compiler returning
  the empty text) fails the assertion \<open>TARO_ASSERT( !sql.empty() )\<close>: the operation
  aborts before any execution is attempted, and no text is handed to the engine.
\<close>

theorem aggregate_empty_sql_aborts:
  assumes "get_class_name T w = (Inr name, w1)"
  shows "(STRING_CHECK ext column \<and> sum_tbl_sql db name column cond = []
            \<longrightarrow> sum_T ext db T column cond w = (Inl AssertionAbort, w1))
         \<and> (count_tbl_sql db name cond = []
            \<longrightarrow> count_T ext db T cond w = (Inl AssertionAbort, w1))
         \<and> (STRING_CHECK ext column \<and> average_tbl_sql db name column cond = []
            \<longrightarrow> average ext db T column cond w = (Inl AssertionAbort, w1))
         \<and> handed w1 = handed w \<and> engine w1 = engine w"
  using assms get_class_name_handed [OF assms] get_class_name_engine [OF assms]
  by (simp add: sum_T_def count_T_def average_def)

theorem aggregate_empty_sql_aborts_witness:
  "STRING_CHECK example_ext (Some ''age'')
   \<and> sum_tbl_sql example_db ''User'' (Some ''age'') False = []
   \<and> count_tbl_sql example_db ''User'' False = []
   \<and> average_tbl_sql example_db ''User'' (Some ''age'') False = []
   \<and> sum_T example_ext example_db User_T (Some ''age'') False (world0 None)
        = (Inl AssertionAbort, world0 None)
   \<and> count_T example_ext example_db User_T False (world0 None) = (Inl AssertionAbort, world0 None)
   \<and> average example_ext example_db User_T (Some ''age'') False (world0 None)
        = (Inl AssertionAbort, world0 None)
   \<and> handed (world0 None) = []"
proof -
  have a: "STRING_CHECK example_ext (Some ''age'')"
    "sum_tbl_sql example_db ''User'' (Some ''age'') False = []"
    "count_tbl_sql example_db ''User'' False = []"
    "average_tbl_sql example_db ''User'' (Some ''age'') False = []"
    "handed (world0 None) = []"
    by (simp_all add: example_ext_def example_db_def world0_def)
  show ?thesis
    using a aggregate_empty_sql_aborts [OF example_class_name [of None], of example_ext
        "Some ''age''" example_db False]
    by simp
qed

text \<open>
  C7. count returns a present value, the integer \<open>atol\<close> parses, whenever the engine
  returns a non-NULL first column: 0 for the text \<open>0\<close> that COUNT(*) gives over no
  matching rows. sum and average, once their statement is compiled, return an absent
  value exactly when the engine gives no result or the first column of the result is
  SQL NULL, as SUM and AVG are over no matching rows.
\<close>

theorem aggregates_absent_or_present:
  assumes "get_class_name T w = (Inr name, w1)"
  shows "(count_tbl_sql db name cond \<noteq> []
            \<and> call_query_cmd db (count_tbl_sql db name cond) w1 = (Some result, wc)
            \<and> get_col_val 0 result = Some digits
          \<longrightarrow> count_T ext db T cond w = (Inr (Some (word_of_int (atol digits))), wc))
         \<and> (count_tbl_sql db name cond \<noteq> []
            \<and> call_query_cmd db (count_tbl_sql db name cond) w1 = (Some result, wc)
            \<and> get_col_val 0 result = Some ''0''
          \<longrightarrow> count_T ext db T cond w = (Inr (Some 0), wc))
         \<and> (STRING_CHECK ext column \<and> sum_tbl_sql db name column cond \<noteq> []
            \<and> call_query_cmd db (sum_tbl_sql db name column cond) w1 = (r, ws)
          \<longrightarrow> (fst (sum_T ext db T column cond w) = Inr None)
                = (r = None \<or> (\<exists>result. r = Some result \<and> get_col_val 0 result = None)))
         \<and> (STRING_CHECK ext column \<and> average_tbl_sql db name column cond \<noteq> []
            \<and> call_query_cmd db (average_tbl_sql db name column cond) w1 = (r', wa)
          \<longrightarrow> (fst (average ext db T column cond w) = Inr None)
                = (r' = None \<or> (\<exists>result. r' = Some result \<and> get_col_val 0 result = None)))"
proof -
  have zero: "atol ''0'' = 0"
    by (simp add: atol_def isspace_def isdigit_def)
  show ?thesis
    using assms zero
    by (auto simp: count_T_def sum_T_def average_def split: option.splits)
qed

theorem aggregates_absent_or_present_witness:
  "get_col_val 0 cursor_zero = Some ''0''
   \<and> get_col_val 0 cursor_null = None
   \<and> count_T example_ext example_db User_T True (world0 (Some cursor_zero))
        = (Inr (Some 0), (world0 (Some cursor_zero))\<lparr>handed := [''SELECT COUNT(*) FROM User'']\<rparr>)
   \<and> fst (sum_T example_ext example_db User_T (Some ''age'') True (world0 (Some cursor_null)))
        = Inr None
   \<and> fst (sum_T example_ext example_db User_T (Some ''age'') True (world0 None)) = Inr None
   \<and> fst (sum_T example_ext example_db User_T (Some ''age'') True (world0 (Some cursor_zero)))
        \<noteq> Inr None
   \<and> fst (average example_ext example_db User_T (Some ''age'') True (world0 (Some cursor_null)))
        = Inr None
   \<and> fst (average example_ext example_db User_T (Some ''age'') True (world0 (Some cursor_zero)))
        \<noteq> Inr None"
proof -
  have cols: "get_col_val 0 cursor_zero = Some ''0''" "get_col_val 0 cursor_null = None"
    by (simp_all add: get_col_val_def cursor_zero_def cursor_null_def)
  have sql: "count_tbl_sql example_db ''User'' True = ''SELECT COUNT(*) FROM User''"
    "sum_tbl_sql example_db ''User'' (Some ''age'') True = ''SELECT SUM(*) FROM User''"
    "average_tbl_sql example_db ''User'' (Some ''age'') True = ''SELECT AVG(*) FROM User''"
    "STRING_CHECK example_ext (Some ''age'')"
    by (simp_all add: example_db_def example_ext_def)
  show ?thesis
    using cols sql
      aggregates_absent_or_present [OF example_class_name [of "Some cursor_zero"],
        where db = example_db and ext = example_ext and cond = True and column = "Some ''age''"
        and result = cursor_zero and digits = "''0''"
        and r = "Some cursor_zero" and r' = "Some cursor_zero"
        and wc = "(world0 (Some cursor_zero))\<lparr>handed := [''SELECT COUNT(*) FROM User'']\<rparr>"
        and ws = "(world0 (Some cursor_zero))\<lparr>handed := [''SELECT SUM(*) FROM User'']\<rparr>"
        and wa = "(world0 (Some cursor_zero))\<lparr>handed := [''SELECT AVG(*) FROM User'']\<rparr>"]
      aggregates_absent_or_present [OF example_class_name [of "Some cursor_null"],
        where db = example_db and ext = example_ext and cond = True and column = "Some ''age''"
        and result = cursor_zero and digits = "''0''"
        and r = "Some cursor_null" and r' = "Some cursor_null"
        and wc = "(world0 (Some cursor_zero))\<lparr>handed := [''SELECT COUNT(*) FROM User'']\<rparr>"
        and ws = "(world0 (Some cursor_null))\<lparr>handed := [''SELECT SUM(*) FROM User'']\<rparr>"
        and wa = "(world0 (Some cursor_null))\<lparr>handed := [''SELECT AVG(*) FROM User'']\<rparr>"]
      aggregates_absent_or_present [OF example_class_name [of None],
        where db = example_db and ext = example_ext and cond = True and column = "Some ''age''"
        and result = cursor_zero and digits = "''0''"
        and r = None and r' = None
        and wc = "(world0 (Some cursor_zero))\<lparr>handed := [''SELECT COUNT(*) FROM User'']\<rparr>"
        and ws = "(world0 None)\<lparr>handed := [''SELECT SUM(*) FROM User'']\<rparr>"
        and wa = "(world0 None)\<lparr>handed := [''SELECT AVG(*) FROM User'']\<rparr>"]
    by (simp add: example_call_query_cmd atol_def isspace_def isdigit_def)
qed

section \<open>Marshalling the rows of a query\<close>

lemma marshal_cols_unknown_column:
  "c \<in> set cs \<Longrightarrow> find (\<lambda>ptr. get_name ptr = c) members = None
     \<Longrightarrow> marshal_cols members result cs i element = Inl AssertionAbort"
proof (induction cs arbitrary: i element)
  case Nil
  then show ?case by simp
next
  case (Cons d cs)
  show ?case
  proof (cases "find (\<lambda>ptr. get_name ptr = d) members")
    case None
    then show ?thesis by simp
  next
    case (Some m)
    with Cons.prems have "c \<in> set cs" by auto
    with Cons.IH Cons.prems(2) Some show ?thesis by simp
  qed
qed

lemma marshal_rows_unknown_column:
  assumes "c \<in> set cols" and "find (\<lambda>ptr. get_name ptr = c) members = None"
  shows "marshal_rows members cols dflt result acc = Inl AssertionAbort"
  using marshal_cols_unknown_column [OF assms, of result 0 dflt]
  by (subst marshal_rows.simps) simp

lemma get_col_val_current_row:
  "rows result = row # rest \<Longrightarrow> get_col_val i (result\<lparr>rows := [row]\<rparr>) = get_col_val i result"
  by (simp add: get_col_val_def)

lemma marshal_cols_current_row:
  "rows result = row # rest \<Longrightarrow>
     marshal_cols members (result\<lparr>rows := [row]\<rparr>) cols i element
       = marshal_cols members result cols i element"
  by (induction cols arbitrary: i element)
     (simp_all add: get_col_val_current_row split: option.splits)

lemma marshal_cols_known_columns:
  "set cols \<subseteq> get_name ` set members \<Longrightarrow> \<exists>obj. marshal_cols members result cols i element = Inr obj"
proof (induction cols arbitrary: i element)
  case Nil
  then show ?case by simp
next
  case (Cons c cols)
  from Cons.prems have "find (\<lambda>ptr. get_name ptr = c) members \<noteq> None"
    by (auto simp: find_None_iff)
  then obtain m where "find (\<lambda>ptr. get_name ptr = c) members = Some m"
    by auto
  moreover from Cons.prems have "set cols \<subseteq> get_name ` set members"
    by simp
  ultimately show ?case
    using Cons.IH by simp
qed

lemma marshal_rows_each_row:
  assumes known: "set cols \<subseteq> get_name ` set members"
  shows "rows result = row # rest \<Longrightarrow>
     \<exists>objs. marshal_rows members cols dflt result acc = Inr (acc @ objs)
       \<and> map Inr objs
           = map (\<lambda>r. marshal_cols members (result\<lparr>rows := [r]\<rparr>) cols 0 dflt) (row # rest)"
proof (induction rest arbitrary: result row acc)
  case Nil
  obtain obj where obj: "marshal_cols members result cols 0 dflt = Inr obj"
    using marshal_cols_known_columns [OF known] by blast
  have nx: "fst (next_row result) = False"
    using Nil by (simp add: next_row_def)
  have "marshal_rows members cols dflt result acc = Inr (acc @ [obj])"
    using obj nx by (subst marshal_rows.simps) simp
  moreover have "marshal_cols members (result\<lparr>rows := [row]\<rparr>) cols 0 dflt = Inr obj"
    by (simp only: marshal_cols_current_row [OF Nil] obj)
  ultimately show ?case by simp
next
  case (Cons r rest)
  obtain obj where obj: "marshal_cols members result cols 0 dflt = Inr obj"
    using marshal_cols_known_columns [OF known] by blast
  let ?result' = "result\<lparr>rows := r # rest\<rparr>"
  have nx: "next_row result = (True, ?result')"
    using Cons.prems by (simp add: next_row_def)
  have rows': "rows ?result' = r # rest"
    by simp
  obtain objs where objs:
    "marshal_rows members cols dflt ?result' (acc @ [obj]) = Inr ((acc @ [obj]) @ objs)"
    and each: "map Inr objs
      = map (\<lambda>x. marshal_cols members (?result'\<lparr>rows := [x]\<rparr>) cols 0 dflt) (r # rest)"
    using Cons.IH [OF rows', of "acc @ [obj]"] by blast
  have "marshal_rows members cols dflt result acc = Inr (acc @ obj # objs)"
    using obj nx objs by (subst marshal_rows.simps) simp
  moreover have "marshal_cols members (result\<lparr>rows := [row]\<rparr>) cols 0 dflt = Inr obj"
    by (simp only: marshal_cols_current_row [OF Cons.prems] obj)
  ultimately show ?case
    using each by simp
qed

text \<open>The example queries, evaluated.\<close>

lemma example_query_sql:
  "query_tbl_sql example_db ''User'' user_members (expand_query_param example_ext True)
     = ''SELECT * FROM User''"
  by (simp add: example_db_def example_ext_def)

lemma example_query_users:
  "fst (query example_ext example_db User_T True (world0 (Some cursor_users)))
     = Inr [\<lparr>user_id = 1, user_name = ''Alice'', user_age = 30\<rparr>,
            \<lparr>user_id = 1, user_name = ''Alice'', user_age = 30\<rparr>,
            \<lparr>user_id = 2, user_name = [], user_age = 41\<rparr>]"
  by code_simp

lemma example_query_rows_no_columns:
  "fst (query example_ext example_db User_T True (world0 (Some cursor_rows_no_columns))) = Inr []"
  by code_simp

lemma example_query_null_age:
  "fst (query example_ext example_db Account_T True (fresh_world (Some cursor_null_age)))
     = Inr [\<lparr>user_id = 0, user_name = [], user_age = 0\<rparr>]"
  by code_simp

text \<open>
  C2. During result marshalling in the typed query, a returned column name for which
  no member reflector of exactly that name exists fails the assertion: the query aborts;
  the column is neither skipped nor reported as a recoverable error.
\<close>

theorem query_unknown_column_aborts:
  assumes "get_cls_info T w = (Inr (name, members), w1)"
    and "members \<noteq> []"
    and "query_tbl_sql db name members (expand_query_param ext args) \<noteq> []"
    and "call_query_cmd db (query_tbl_sql db name members (expand_query_param ext args)) w1
           = (Some result, w2)"
    and "c \<in> set (get_columns result)"
    and "c \<notin> get_name ` set members"
  shows "query ext db T args w = (Inl AssertionAbort, w2)"
proof -
  have none: "find (\<lambda>ptr. get_name ptr = c) members = None"
    using assms(6) by (auto simp: find_None_iff)
  have "name \<noteq> []"
    using assms(1) by (rule get_cls_info_name)
  moreover have "get_columns result \<noteq> []"
    using assms(5) by auto
  moreover have "marshal_rows members (get_columns result) (default_init T) result []
      = Inl AssertionAbort"
    using assms(5) none by (rule marshal_rows_unknown_column)
  ultimately show ?thesis
    using assms(1-4) by (simp add: query_def)
qed

theorem query_unknown_column_aborts_witness:
  "''email'' \<in> set (get_columns cursor_with_email)
   \<and> ''email'' \<notin> get_name ` set user_members
   \<and> query example_ext example_db User_T True (world0 (Some cursor_with_email))
        = (Inl AssertionAbort, (world0 (Some cursor_with_email))\<lparr>handed := [''SELECT * FROM User'']\<rparr>)"
proof -
  have h2: "user_members \<noteq> []"
    by (simp add: user_members_def)
  have h3: "query_tbl_sql example_db ''User'' user_members (expand_query_param example_ext True) \<noteq> []"
    by (simp add: example_query_sql)
  have h4: "call_query_cmd example_db
        (query_tbl_sql example_db ''User'' user_members (expand_query_param example_ext True))
        (world0 (Some cursor_with_email))
      = (Some cursor_with_email, (world0 (Some cursor_with_email))\<lparr>handed := [''SELECT * FROM User'']\<rparr>)"
    by (simp add: example_query_sql example_call_query_cmd)
  have h5: "''email'' \<in> set (get_columns cursor_with_email)"
    by (simp add: get_columns_def cursor_with_email_def)
  have h6: "''email'' \<notin> get_name ` set user_members"
    by (simp add: user_members_names)
  show ?thesis
    using h5 h6 query_unknown_column_aborts [OF example_cls_info h2 h3 h4 h5 h6]
    by simp
qed

text \<open>
  C10. If the cursor the engine returns for a typed query reports an empty list of
  column names, the query returns the empty sequence: no object is marshalled, whatever
  the member reflectors are, and nothing aborts.
\<close>

theorem query_no_columns_empty:
  assumes "get_cls_info T w = (Inr (name, members), w1)"
    and "members \<noteq> []"
    and "query_tbl_sql db name members (expand_query_param ext args) \<noteq> []"
    and "call_query_cmd db (query_tbl_sql db name members (expand_query_param ext args)) w1
           = (Some result, w2)"
    and "get_columns result = []"
  shows "query ext db T args w = (Inr [], w2)"
proof -
  have "name \<noteq> []"
    using assms(1) by (rule get_cls_info_name)
  then show ?thesis
    using assms by (simp add: query_def)
qed

theorem query_no_columns_empty_witness:
  "get_columns cursor_no_columns = []
   \<and> query example_ext example_db User_T True (world0 (Some cursor_no_columns))
        = (Inr [], (world0 (Some cursor_no_columns))\<lparr>handed := [''SELECT * FROM User'']\<rparr>)"
proof -
  have h2: "user_members \<noteq> []"
    by (simp add: user_members_def)
  have h3: "query_tbl_sql example_db ''User'' user_members (expand_query_param example_ext True) \<noteq> []"
    by (simp add: example_query_sql)
  have h4: "call_query_cmd example_db
        (query_tbl_sql example_db ''User'' user_members (expand_query_param example_ext True))
        (world0 (Some cursor_no_columns))
      = (Some cursor_no_columns, (world0 (Some cursor_no_columns))\<lparr>handed := [''SELECT * FROM User'']\<rparr>)"
    by (simp add: example_query_sql example_call_query_cmd)
  have h5: "get_columns cursor_no_columns = []"
    by (simp add: get_columns_def cursor_no_columns_def)
  show ?thesis
    using h5 query_no_columns_empty [OF example_cls_info h2 h3 h4 h5]
    by simp
qed

text \<open>
  C3, as the header has it: the query returns the empty vector as soon as the cursor
  reports no column names (\<open>cols.empty()\<close>), before the marshalling loop. A cursor that
  holds two rows and reports no column names yields no object, not one object per row.
\<close>

theorem query_rows_without_columns_no_object:
  "get_columns cursor_rows_no_columns = []
   \<and> length (rows cursor_rows_no_columns) = 2
   \<and> fst (query example_ext example_db User_T True (world0 (Some cursor_rows_no_columns)))
        = Inr []"
proof -
  have "get_columns cursor_rows_no_columns = []"
    and "length (rows cursor_rows_no_columns) = 2"
    by (simp_all add: get_columns_def cursor_rows_no_columns_def)
  then show ?thesis
    using example_query_rows_no_columns by simp
qed

text \<open>
  C3, amended. For every cursor returned by a successful query execution that reports a
  non-empty list of column names, each of them the name of a member reflector, and that
  holds at least one row, the typed query produces exactly one object per row of the
  cursor, in cursor order, with no reordering and no deduplication: the k-th object is
  the one marshalled from the k-th row alone.
\<close>

theorem query_one_object_per_row:
  assumes "get_cls_info T w = (Inr (name, members), w1)"
    and "members \<noteq> []"
    and "query_tbl_sql db name members (expand_query_param ext args) \<noteq> []"
    and "call_query_cmd db (query_tbl_sql db name members (expand_query_param ext args)) w1
           = (Some result, w2)"
    and "get_columns result \<noteq> []"
    and "set (get_columns result) \<subseteq> get_name ` set members"
    and "rows result \<noteq> []"
  shows "\<exists>objs. query ext db T args w = (Inr objs, w2)
           \<and> length objs = length (rows result)
           \<and> map Inr objs
               = map (\<lambda>row. marshal_cols members (result\<lparr>rows := [row]\<rparr>) (get_columns result) 0
                        (default_init T)) (rows result)"
proof -
  have name: "name \<noteq> []"
    using assms(1) by (rule get_cls_info_name)
  obtain row rest where rows: "rows result = row # rest"
    using assms(7) by (cases "rows result") auto
  obtain objs where run:
    "marshal_rows members (get_columns result) (default_init T) result [] = Inr ([] @ objs)"
    and each: "map Inr objs
      = map (\<lambda>r. marshal_cols members (result\<lparr>rows := [r]\<rparr>) (get_columns result) 0 (default_init T))
          (row # rest)"
    using marshal_rows_each_row [OF assms(6) rows] by blast
  have "query ext db T args w = (Inr objs, w2)"
    using assms(1-5) name run by (simp add: query_def)
  moreover have "length objs = length (rows result)"
    using arg_cong [OF each, of length] rows by simp
  ultimately show ?thesis
    using each rows by simp
qed

theorem query_one_object_per_row_witness:
  "get_columns cursor_users \<noteq> []
   \<and> rows cursor_users \<noteq> []
   \<and> length (rows cursor_users) = 3
   \<and> (\<exists>objs. query example_ext example_db User_T True (world0 (Some cursor_users))
          = (Inr objs, (world0 (Some cursor_users))\<lparr>handed := [''SELECT * FROM User'']\<rparr>)
        \<and> length objs = 3
        \<and> objs = [\<lparr>user_id = 1, user_name = ''Alice'', user_age = 30\<rparr>,
                   \<lparr>user_id = 1, user_name = ''Alice'', user_age = 30\<rparr>,
                   \<lparr>user_id = 2, user_name = [], user_age = 41\<rparr>])"
proof -
  have h2: "user_members \<noteq> []"
    by (simp add: user_members_def)
  have h3: "query_tbl_sql example_db ''User'' user_members (expand_query_param example_ext True) \<noteq> []"
    by (simp add: example_query_sql)
  have h4: "call_query_cmd example_db
        (query_tbl_sql example_db ''User'' user_members (expand_query_param example_ext True))
        (world0 (Some cursor_users))
      = (Some cursor_users, (world0 (Some cursor_users))\<lparr>handed := [''SELECT * FROM User'']\<rparr>)"
    by (simp add: example_query_sql example_call_query_cmd)
  have h5: "get_columns cursor_users \<noteq> []"
    by (simp add: get_columns_def cursor_users_def)
  have h6: "set (get_columns cursor_users) \<subseteq> get_name ` set user_members"
    by (simp add: user_members_names get_columns_def cursor_users_def)
  have h7: "rows cursor_users \<noteq> []" and len: "length (rows cursor_users) = 3"
    by (simp_all add: cursor_users_def)
  obtain objs where q: "query example_ext example_db User_T True (world0 (Some cursor_users))
        = (Inr objs, (world0 (Some cursor_users))\<lparr>handed := [''SELECT * FROM User'']\<rparr>)"
    and l: "length objs = length (rows cursor_users)"
    using query_one_object_per_row [OF example_cls_info h2 h3 h4 h5 h6 h7] by blast
  have "objs = [\<lparr>user_id = 1, user_name = ''Alice'', user_age = 30\<rparr>,
                \<lparr>user_id = 1, user_name = ''Alice'', user_age = 30\<rparr>,
                \<lparr>user_id = 2, user_name = [], user_age = 41\<rparr>]"
    using q example_query_users by simp
  then show ?thesis
    using h5 h7 len q l by simp
qed

text \<open>
  C4, as the header has it: \<open>deserialize\<close> is called for a column whose row value is
  SQL NULL too, with the null pointer. With a reflector that stores 0 at a null text, an
  age that the default constructor set to -1 comes back as 0.
\<close>

theorem query_null_reaches_deserialize:
  "get_col_val 0 cursor_null_age = None
   \<and> user_age (default_init Account_T) = - 1
   \<and> fst (query example_ext example_db Account_T True (fresh_world (Some cursor_null_age)))
        = Inr [\<lparr>user_id = 0, user_name = [], user_age = 0\<rparr>]"
proof -
  have "get_col_val 0 cursor_null_age = None"
    by (simp add: get_col_val_def cursor_null_age_def)
  moreover have "user_age (default_init Account_T) = - 1"
    by (simp add: Account_T_def)
  ultimately show ?thesis
    using example_query_null_age by simp
qed

text \<open>
  C4, amended. During result marshalling in the typed query, the descriptor's
  \<open>deserialize\<close> is invoked for every returned column, with the null text where the
  row value is SQL NULL. The field is left at its default when the reflectors leave the
  object unchanged at a null text: then the marshalling of the header gives what the
  marshalling that skips NULL columns gives.
\<close>

theorem marshal_null_goes_to_deserialize:
  "(find (\<lambda>ptr. get_name ptr = c) members = Some m \<and> get_col_val (of_nat i) result = None \<longrightarrow>
      marshal_cols members result (c # cs) i element
        = marshal_cols members result cs (i + 1) (deserialize m None element))
   \<and> ((\<forall>m \<in> set members. \<forall>obj. deserialize m None obj = obj) \<longrightarrow>
      marshal_cols members result cols i element
        = marshal_cols_skip_null members result cols i element)"
proof -
  have "marshal_cols members result cols i element
          = marshal_cols_skip_null members result cols i element"
    if tol: "\<forall>m \<in> set members. \<forall>obj. deserialize m None obj = obj"
    using tol
  proof (induction cols arbitrary: i element)
    case Nil
    then show ?case by simp
  next
    case (Cons d cols)
    show ?case
    proof (cases "find (\<lambda>ptr. get_name ptr = d) members")
      case None
      then show ?thesis by simp
    next
      case (Some m)
      then have "m \<in> set members"
        by (auto simp: find_Some_iff)
      with Cons.prems have "deserialize m None element = element"
        by simp
      then show ?thesis
        using Some Cons.IH [OF Cons.prems] by (simp split: option.splits)
    qed
  qed
  then show ?thesis by simp
qed

theorem marshal_null_goes_to_deserialize_witness:
  "find (\<lambda>ptr. get_name ptr = ''age'') account_members = Some age_member_zero_at_null
   \<and> get_col_val (of_nat 0) cursor_null_age = None
   \<and> marshal_cols account_members cursor_null_age [''age''] 0 (default_init Account_T)
        = Inr \<lparr>user_id = 0, user_name = [], user_age = 0\<rparr>
   \<and> list_all (\<lambda>m. deserialize m None (default_init User_T) = default_init User_T) user_members
   \<and> marshal_cols user_members (cursor_users\<lparr>rows := [[Some ''2'', None, Some ''41'']]\<rparr>)
        [''id'', ''name'', ''age''] 0 (default_init User_T)
      = marshal_cols_skip_null user_members (cursor_users\<lparr>rows := [[Some ''2'', None, Some ''41'']]\<rparr>)
          [''id'', ''name'', ''age''] 0 (default_init User_T)"
proof -
  have a: "find (\<lambda>ptr. get_name ptr = ''age'') account_members = Some age_member_zero_at_null"
    by (simp add: account_members_def id_member_def age_member_zero_at_null_def)
  have b: "get_col_val (of_nat 0) cursor_null_age = None"
    by (simp add: get_col_val_def cursor_null_age_def)
  have c: "deserialize age_member_zero_at_null None (default_init Account_T)
      = \<lparr>user_id = 0, user_name = [], user_age = 0\<rparr>"
    by (simp add: age_member_zero_at_null_def Account_T_def)
  have tol: "\<forall>m \<in> set user_members. \<forall>obj. deserialize m None obj = obj"
    by (simp add: user_members_def id_member_def name_member_def age_member_def)
  have d: "list_all (\<lambda>m. deserialize m None (default_init User_T) = default_init User_T) user_members"
    using tol by (simp add: list_all_iff)
  show ?thesis
    using a b c d tol
      marshal_null_goes_to_deserialize [of "''age''" account_members age_member_zero_at_null 0
        cursor_null_age "[]" "default_init Account_T" "[]"]
      marshal_null_goes_to_deserialize [of "''id''" user_members id_member 0
        "cursor_users\<lparr>rows := [[Some ''2'', None, Some ''41'']]\<rparr>" "[]" "default_init User_T"
        "[''id'', ''name'', ''age'']"]
    by simp
qed

end
